theory Spec2Isabelle
  imports Complex_Main
begin

section \<open>The audio player hook \<open>useAudioPlayer\<close>\<close>

text \<open>
  The development embeds \<^verbatim>\<open>src/hooks/useAudioPlayer.ts\<close>. JavaScript numbers are
  modelled as exact reals, references (\<^verbatim>\<open>useRef\<close>) and state cells (\<^verbatim>\<open>useState\<close>)
  as fields of one session record, and the optional callbacks of the hook's options by
  a log of their invocations. A control reads the state cells of the render in which it
  was called; in a run of the session every command sees the state that the one before
  it left.
\<close>

subsection \<open>\<open>formatTime\<close>\<close>

text \<open>
  \<^verbatim>\<open>Number.prototype.toString\<close> on an integer: its decimal digits, with a minus sign
  when it is negative (the form JavaScript gives every integer of magnitude below
  \<open>10^21\<close>).
\<close>

fun digits :: "nat \<Rightarrow> string" where
  "digits n = (if n < 10 then [''0123456789'' ! n]
               else digits (n div 10) @ [''0123456789'' ! (n mod 10)])"

declare digits.simps [simp del]

definition number_toString :: "int \<Rightarrow> string" where
  "number_toString k = (if k < 0 then CHR ''-'' # digits (nat (- k)) else digits (nat k))"

text \<open>\<^verbatim>\<open>String.prototype.padStart(targetLength, padString)\<close> with a one-character pad.\<close>

definition padStart :: "nat \<Rightarrow> char \<Rightarrow> string \<Rightarrow> string" where
  "padStart targetLength c str = replicate (targetLength - length str) c @ str"

text \<open>
  The remainder operator \<^verbatim>\<open>%\<close> of JavaScript truncates the quotient towards zero,
  so the result has the sign of the dividend.
\<close>

definition js_trunc :: "real \<Rightarrow> int" where
  "js_trunc x = (if 0 \<le> x then \<lfloor>x\<rfloor> else \<lceil>x\<rceil>)"

definition js_rem :: "real \<Rightarrow> real \<Rightarrow> real" where
  "js_rem x y = x - y * of_int (js_trunc (x / y))"

text \<open>
  \<^verbatim>\<open>
  const formatTime = (seconds: number): string => {
    const mins = Math.floor(seconds / 60);
    const secs = Math.floor(seconds % 60);
    return `${mins}:${secs.toString().padStart(2, '0')}`;
  };
  \<close>
\<close>

definition formatTime :: "real \<Rightarrow> string" where
  "formatTime seconds =
     (let mins = \<lfloor>seconds / 60\<rfloor>;
          secs = \<lfloor>js_rem seconds 60\<rfloor>
      in number_toString mins @ '':'' @ padStart 2 (CHR ''0'') (number_toString secs))"

text \<open>
  The format as the specification words it: the minutes \<open>floor(s / 60)\<close> without
  padding, a colon, and \<open>floor(s) mod 60\<close> padded with zeros to two digits.
\<close>

definition two_digits :: "nat \<Rightarrow> string" where
  "two_digits n = (if n < 10 then CHR ''0'' # digits n else digits n)"

definition formatTime_spec :: "real \<Rightarrow> string" where
  "formatTime_spec s = digits (nat \<lfloor>s / 60\<rfloor>) @ '':'' @ two_digits (nat (\<lfloor>s\<rfloor> mod 60))"

subsection \<open>The session state\<close>

text \<open>
  The Web Audio objects the hook holds. An \<^verbatim>\<open>AudioContext\<close> has a state; each context
  created gets a fresh identity, which also names its \<^verbatim>\<open>destination\<close>.
\<close>

datatype context_state = Running | Suspended | Closed

record audio_context =
  ctx_id :: nat
  ctx_state :: context_state

record audio_buffer =
  buf_duration :: real

text \<open>A thrown JavaScript error, by its name.\<close>

type_synonym js_error = string

text \<open>
  The \<^verbatim>\<open>PitchShifter\<close> of soundtouchjs, an external node: the context and buffer it was
  built from, its settable parameters, and the destinations its output is connected to.
  In the Web Audio graph a connection between one output and one input exists at most
  once, so the connections are a set: \<^verbatim>\<open>connect\<close> adds the destination,
  \<^verbatim>\<open>disconnect()\<close> removes every connection. A node can only be connected within
  the context that it was built on: \<^verbatim>\<open>connect\<close> to the destination of another
  context throws an \<^verbatim>\<open>InvalidAccessError\<close>.
\<close>

record pitch_shifter =
  ps_context :: nat
  ps_buffer :: audio_buffer
  tempo :: real
  pitchSemitones :: real
  percentagePlayed :: real
  outputs :: "nat set"

definition connect :: "nat \<Rightarrow> pitch_shifter \<Rightarrow> js_error + pitch_shifter" where
  "connect dest n =
     (if dest = ps_context n then Inr (n\<lparr>outputs := insert dest (outputs n)\<rparr>)
      else Inl ''InvalidAccessError'')"

definition disconnect :: "pitch_shifter \<Rightarrow> pitch_shifter" where
  "disconnect n = n\<lparr>outputs := {}\<rparr>"

text \<open>
  \<^verbatim>\<open>suspend()\<close> and \<^verbatim>\<open>resume()\<close> of a context; the hook does not await them. A closed
  context stays closed.
\<close>

definition suspend :: "audio_context \<Rightarrow> audio_context" where
  "suspend c = (if ctx_state c = Closed then c else c\<lparr>ctx_state := Suspended\<rparr>)"

definition resume :: "audio_context \<Rightarrow> audio_context" where
  "resume c = (if ctx_state c = Closed then c else c\<lparr>ctx_state := Running\<rparr>)"

text \<open>
  \<^verbatim>\<open>UseAudioPlayerOptions\<close>: both callbacks are optional, so the options say which are
  given; an invocation of a callback is recorded in the session's log.
\<close>

record options =
  onPlaybackEnd :: bool
  onError :: bool

datatype callback = PlaybackEnd | Error js_error

record js_file =
  file_name :: string

text \<open>
  The references (\<open>audioContext\<close>, \<open>audioBuffer\<close>, \<open>pitchShifterRef\<close>) and state
  cells of the hook. \<open>contexts_created\<close> counts the contexts constructed so far and
  gives the next one its identity; \<open>calls\<close> is the log of callback invocations.
\<close>

record session =
  audioContext :: "audio_context option"
  audioBuffer :: "audio_buffer option"
  pitchShifterRef :: "pitch_shifter option"
  speed :: real
  pitch :: real
  audioFileName :: "string option"
  isPlaying :: bool
  currentTime :: real
  duration :: real
  isLoading :: bool
  contexts_created :: nat
  calls :: "callback list"

text \<open>The state of a freshly mounted hook (the \<^verbatim>\<open>useRef\<close> and \<^verbatim>\<open>useState\<close> initialisers).\<close>

definition initial :: session where
  "initial = \<lparr>audioContext = None, audioBuffer = None, pitchShifterRef = None,
     speed = 1, pitch = 0, audioFileName = None, isPlaying = False, currentTime = 0,
     duration = 0, isLoading = False, contexts_created = 0, calls = []\<rparr>"

definition call_onPlaybackEnd :: "options \<Rightarrow> session \<Rightarrow> session" where
  "call_onPlaybackEnd opts s =
     (if onPlaybackEnd opts then s\<lparr>calls := calls s @ [PlaybackEnd]\<rparr> else s)"

definition call_onError :: "options \<Rightarrow> js_error \<Rightarrow> session \<Rightarrow> session" where
  "call_onError opts e s = (if onError opts then s\<lparr>calls := calls s @ [Error e]\<rparr> else s)"

subsection \<open>Transport controls\<close>

text \<open>
  \<^verbatim>\<open>
  const play = () => {
    if (pitchShifterRef.current && audioContext.current) {
      if (audioContext.current.state === 'suspended') {
        audioContext.current.resume();
      }
      // Ensure connected before playing
      pitchShifterRef.current.connect(audioContext.current.destination);
      setIsPlaying(true);
    }
  };
  \<close>
  \<open>play\<close> catches nothing: when \<^verbatim>\<open>connect\<close> throws, the error leaves \<open>play\<close> after
  the context has been resumed and before \<^verbatim>\<open>setIsPlaying(true)\<close>. The result is the
  error thrown, if any, and the session as the call leaves it.
\<close>

definition play :: "session \<Rightarrow> js_error option \<times> session" where
  "play s =
     (case (pitchShifterRef s, audioContext s) of
        (Some n, Some c) \<Rightarrow>
          (let s1 = s\<lparr>audioContext := Some (if ctx_state c = Suspended then resume c else c)\<rparr>
           in case connect (ctx_id c) n of
                Inl e \<Rightarrow> (Some e, s1)
              | Inr n' \<Rightarrow> (None, s1\<lparr>pitchShifterRef := Some n', isPlaying := True\<rparr>))
      | _ \<Rightarrow> (None, s))"

text \<open>
  \<^verbatim>\<open>
  const pause = () => {
    if (pitchShifterRef.current && audioContext.current) {
      pitchShifterRef.current.disconnect();
      audioContext.current.suspend();
      setIsPlaying(false);
    }
  };
  \<close>
\<close>

definition pause :: "session \<Rightarrow> session" where
  "pause s =
     (case (pitchShifterRef s, audioContext s) of
        (Some n, Some c) \<Rightarrow>
          s\<lparr>pitchShifterRef := Some (disconnect n),
            audioContext := Some (suspend c),
            isPlaying := False\<rparr>
      | _ \<Rightarrow> s)"

text \<open>
  \<^verbatim>\<open>
  const stop = () => {
    if (pitchShifterRef.current) {
      pitchShifterRef.current.disconnect();
      pitchShifterRef.current.percentagePlayed = 0;
    }
    if (audioContext.current) {
      audioContext.current.suspend();
    }
    setIsPlaying(false);
    setCurrentTime(0);
  };
  \<close>
\<close>

definition stop :: "session \<Rightarrow> session" where
  "stop s =
     s\<lparr>pitchShifterRef :=
         (case pitchShifterRef s of
            None \<Rightarrow> None
          | Some n \<Rightarrow> Some ((disconnect n)\<lparr>percentagePlayed := 0\<rparr>)),
       audioContext :=
         (case audioContext s of None \<Rightarrow> None | Some c \<Rightarrow> Some (suspend c)),
       isPlaying := False,
       currentTime := 0\<rparr>"

text \<open>
  \<^verbatim>\<open>
  const seek = (time: number) => {
    setCurrentTime(time);
    if (pitchShifterRef.current && duration > 0) {
      const percentage = time / duration;
      try {
        pitchShifterRef.current.percentagePlayed = percentage;
      } catch (error) {
        console.error('Error seeking:', error);
        if (options?.onError) { options.onError(error as Error); }
      }
    }
  };
  \<close>
  The setter belongs to the external node; \<open>thrown\<close> is the error it throws, if any.
\<close>

definition seek :: "options \<Rightarrow> js_error option \<Rightarrow> real \<Rightarrow> session \<Rightarrow> session" where
  "seek opts thrown time s =
     (let s1 = s\<lparr>currentTime := time\<rparr>
      in case pitchShifterRef s of
           None \<Rightarrow> s1
         | Some n \<Rightarrow>
             if duration s > 0 then
               (let percentage = time / duration s
                in case thrown of
                     None \<Rightarrow> s1\<lparr>pitchShifterRef := Some (n\<lparr>percentagePlayed := percentage\<rparr>)\<rparr>
                   | Some e \<Rightarrow> call_onError opts e s1)
             else s1)"

text \<open>
  \<^verbatim>\<open>setSpeed\<close> and \<^verbatim>\<open>setPitch\<close> store the value; the effect that depends on the
  cell runs after the render when the value has changed, and writes it to the node if
  there is one.
  \<^verbatim>\<open>
  useEffect(() => {
    if (pitchShifterRef.current) { pitchShifterRef.current.tempo = speed; }
  }, [speed]);
  useEffect(() => {
    if (pitchShifterRef.current) { pitchShifterRef.current.pitchSemitones = pitch; }
  }, [pitch]);
  const setSpeed = (newSpeed: number) => { setSpeedState(newSpeed); };
  const setPitch = (newPitch: number) => { setPitchState(newPitch); };
  \<close>
\<close>

definition setSpeed :: "real \<Rightarrow> session \<Rightarrow> session" where
  "setSpeed newSpeed s =
     (if newSpeed = speed s then s
      else s\<lparr>speed := newSpeed,
             pitchShifterRef :=
               (case pitchShifterRef s of
                  None \<Rightarrow> None
                | Some n \<Rightarrow> Some (n\<lparr>tempo := newSpeed\<rparr>))\<rparr>)"

definition setPitch :: "real \<Rightarrow> session \<Rightarrow> session" where
  "setPitch newPitch s =
     (if newPitch = pitch s then s
      else s\<lparr>pitch := newPitch,
             pitchShifterRef :=
               (case pitchShifterRef s of
                  None \<Rightarrow> None
                | Some n \<Rightarrow> Some (n\<lparr>pitchSemitones := newPitch\<rparr>))\<rparr>)"

subsection \<open>Position events\<close>

text \<open>
  The listener registered on the node in \<^verbatim>\<open>loadFile\<close>:
  \<^verbatim>\<open>
  pitchShifterRef.current.on('play', (event: any) => {
    setCurrentTime(event.timePlayed);
    if (event.percentagePlayed >= 99.9) {
      stop();
      if (options?.onPlaybackEnd) { options.onPlaybackEnd(); }
    }
  });
  \<close>
\<close>

record play_event =
  ev_timePlayed :: real
  ev_percentagePlayed :: real

definition on_play :: "options \<Rightarrow> play_event \<Rightarrow> session \<Rightarrow> session" where
  "on_play opts ev s =
     (let s1 = s\<lparr>currentTime := ev_timePlayed ev\<rparr>
      in if ev_percentagePlayed ev \<ge> 999 / 10
         then call_onPlaybackEnd opts (stop s1)
         else s1)"

text \<open>
  The node delivers a position event for a rendered block, and it renders only while
  its output is connected to the destination of its own context and that context runs.
\<close>

definition rendering :: "session \<Rightarrow> bool" where
  "rendering s =
     (case (pitchShifterRef s, audioContext s) of
        (Some n, Some c) \<Rightarrow>
          ps_context n = ctx_id c \<and> ctx_id c \<in> outputs n \<and> ctx_state c = Running
      | _ \<Rightarrow> False)"

subsection \<open>\<open>loadFile\<close>\<close>

text \<open>
  \<^verbatim>\<open>loadFile\<close> awaits three promises of its environment: the close of the previous
  context, the read of the file, and the decode. \<open>load_env\<close> gives the outcome of
  each (an error when the promise rejects) and whether the browser creates the new
  context suspended (its autoplay policy) rather than running.
\<close>

record load_env =
  close_rejects :: "js_error option"
  starts_suspended :: bool
  read_rejects :: "js_error option"
  decode_result :: "js_error + audio_buffer"

text \<open>\<^verbatim>\<open>audioContext.current = new AudioContextClass()\<close>\<close>

definition loadFile_new_context :: "load_env \<Rightarrow> session \<Rightarrow> session" where
  "loadFile_new_context env s =
     s\<lparr>audioContext :=
         Some \<lparr>ctx_id = contexts_created s,
               ctx_state = (if starts_suspended env then Suspended else Running)\<rparr>,
       contexts_created := Suc (contexts_created s)\<rparr>"

text \<open>
  The \<^verbatim>\<open>catch\<close> and \<^verbatim>\<open>finally\<close> blocks:
  \<^verbatim>\<open>
  } catch (error) {
    console.error('Error loading audio file:', error);
    if (options?.onError) { options.onError(error as Error); }
  } finally {
    setIsLoading(false);
  }
  \<close>
\<close>

definition loadFile_catch :: "options \<Rightarrow> js_error \<Rightarrow> session \<Rightarrow> session" where
  "loadFile_catch opts e s = (call_onError opts e s)\<lparr>isLoading := False\<rparr>"

text \<open>
  The code up to the pending decode:
  \<^verbatim>\<open>
  setIsLoading(true);
  try {
    if (isPlaying) { stop(); }
    if (audioContext.current) { await audioContext.current.close(); }
    audioContext.current = new AudioContextClass();
    const arrayBuffer = await file.arrayBuffer();
    ... await audioContext.current.decodeAudioData(arrayBuffer);
  \<close>
  The result is the state reached, and the error when a promise rejected on the way.
\<close>

definition loadFile_begin :: "load_env \<Rightarrow> session \<Rightarrow> js_error option \<times> session" where
  "loadFile_begin env s =
     (let s1 = s\<lparr>isLoading := True\<rparr>;
          s2 = (if isPlaying s then stop s1 else s1)
      in if audioContext s2 \<noteq> None \<and> close_rejects env \<noteq> None
         then (close_rejects env, s2)
         else (read_rejects env, loadFile_new_context env s2))"

text \<open>
  The code after a successful decode, with the values of \<open>speed\<close> and \<open>pitch\<close> that
  the closure of this call captured:
  \<^verbatim>\<open>
  audioBuffer.current = (decoded);
  pitchShifterRef.current = new PitchShifter(audioContext.current, audioBuffer.current, 1024);
  pitchShifterRef.current.tempo = speed;
  pitchShifterRef.current.pitchSemitones = pitch;
  // Connect to destination
  pitchShifterRef.current.connect(audioContext.current.destination);
  setDuration(audioBuffer.current.duration);
  setCurrentTime(0);
  setAudioFileName(file.name);
  pitchShifterRef.current.on('play', ...);
  ... finally { setIsLoading(false); }
  \<close>
  Without a context the construction of the node throws a \<^verbatim>\<open>TypeError\<close>; an error
  thrown by \<^verbatim>\<open>connect\<close> is caught like every other.
\<close>

definition loadFile_decoded ::
  "options \<Rightarrow> real \<Rightarrow> real \<Rightarrow> js_file \<Rightarrow> audio_buffer \<Rightarrow> session \<Rightarrow> session" where
  "loadFile_decoded opts speed0 pitch0 f buf s =
     (case audioContext s of
        None \<Rightarrow> loadFile_catch opts ''TypeError'' (s\<lparr>audioBuffer := Some buf\<rparr>)
      | Some c \<Rightarrow>
          (let n = \<lparr>ps_context = ctx_id c, ps_buffer = buf, tempo = speed0,
                    pitchSemitones = pitch0, percentagePlayed = 0, outputs = {}\<rparr>
           in case connect (ctx_id c) n of
                Inl e \<Rightarrow>
                  loadFile_catch opts e (s\<lparr>audioBuffer := Some buf, pitchShifterRef := Some n\<rparr>)
              | Inr n' \<Rightarrow>
                  s\<lparr>audioBuffer := Some buf,
                    pitchShifterRef := Some n',
                    duration := buf_duration buf,
                    currentTime := 0,
                    audioFileName := Some (file_name f),
                    isLoading := False\<rparr>))"

text \<open>A whole call of \<^verbatim>\<open>loadFile\<close> with nothing else running between its awaits.\<close>

definition loadFile :: "options \<Rightarrow> load_env \<Rightarrow> js_file \<Rightarrow> session \<Rightarrow> session" where
  "loadFile opts env f s =
     (case loadFile_begin env s of
        (Some e, s') \<Rightarrow> loadFile_catch opts e s'
      | (None, s') \<Rightarrow>
          (case decode_result env of
             Inl e \<Rightarrow> loadFile_catch opts e s'
           | Inr buf \<Rightarrow> loadFile_decoded opts (speed s) (pitch s) f buf s'))"

subsection \<open>Runs of the session\<close>

text \<open>
  What can happen to a session: a call of one of its controls, or a position event of
  the node, which is delivered only while the node renders.
\<close>

datatype command =
    LoadFile load_env js_file
  | Play
  | Pause
  | Stop
  | Seek "js_error option" real
  | SetSpeed real
  | SetPitch real
  | PlayEvent play_event

fun exec :: "options \<Rightarrow> command \<Rightarrow> session \<Rightarrow> session" where
  "exec opts (LoadFile env f) s = loadFile opts env f s"
| "exec opts Play s = snd (play s)"
| "exec opts Pause s = pause s"
| "exec opts Stop s = stop s"
| "exec opts (Seek thrown t) s = seek opts thrown t s"
| "exec opts (SetSpeed v) s = setSpeed v s"
| "exec opts (SetPitch v) s = setPitch v s"
| "exec opts (PlayEvent ev) s = (if rendering s then on_play opts ev s else s)"

fun run :: "options \<Rightarrow> command list \<Rightarrow> session \<Rightarrow> session" where
  "run opts [] s = s"
| "run opts (c # cs) s = run opts cs (exec opts c s)"

text \<open>
  \<^verbatim>\<open>loadFile\<close> is asynchronous: while it awaits the close, the read or the decode,
  other calls and events run on the session. An \<open>interleaving\<close> gives the commands
  that run during each of the three awaits. The call reads \<open>isPlaying\<close>, \<open>speed\<close>
  and \<open>pitch\<close> from the render in which it was made, that is, from the state at the
  call; the close is awaited only when there is a context.
\<close>

record interleaving =
  during_close :: "command list"
  during_read :: "command list"
  during_decode :: "command list"

definition uninterrupted :: interleaving where
  "uninterrupted = \<lparr>during_close = [], during_read = [], during_decode = []\<rparr>"

definition loadFile_interleaved ::
  "options \<Rightarrow> load_env \<Rightarrow> interleaving \<Rightarrow> js_file \<Rightarrow> session \<Rightarrow> session" where
  "loadFile_interleaved opts env il f s =
     (let s1 = s\<lparr>isLoading := True\<rparr>;
          s2 = (if isPlaying s then stop s1 else s1);
          closing = (audioContext s2 \<noteq> None);
          s3 = (if closing then run opts (during_close il) s2 else s2)
      in case (if closing then close_rejects env else None) of
           Some e \<Rightarrow> loadFile_catch opts e s3
         | None \<Rightarrow>
             (let s4 = run opts (during_read il) (loadFile_new_context env s3)
              in case read_rejects env of
                   Some e \<Rightarrow> loadFile_catch opts e s4
                 | None \<Rightarrow>
                     (let s5 = run opts (during_decode il) s4
                      in case decode_result env of
                           Inl e \<Rightarrow> loadFile_catch opts e s5
                         | Inr buf \<Rightarrow> loadFile_decoded opts (speed s) (pitch s) f buf s5)))"





text \<open>
  The asset of the session is loaded on its current context: there is a node, it was
  built on the context that the session holds, and that context is not closed.
\<close>

definition node_current :: "session \<Rightarrow> bool" where
  "node_current s =
     (case (pitchShifterRef s, audioContext s) of
        (Some n, Some c) \<Rightarrow> ps_context n = ctx_id c \<and> ctx_state c \<noteq> Closed
      | _ \<Rightarrow> False)"

text \<open>
  The number of \<open>onPlaybackEnd\<close> invocations in a log, and the number of play-throughs
  that complete in a run: a play-through completes when a position event with
  \<open>percentagePlayed \<ge> 99.9\<close> is delivered.
\<close>

definition playback_ends :: "callback list \<Rightarrow> nat" where
  "playback_ends cs = length (filter (\<lambda>c. c = PlaybackEnd) cs)"

fun completes :: "command \<Rightarrow> session \<Rightarrow> bool" where
  "completes (PlayEvent ev) s = (rendering s \<and> ev_percentagePlayed ev \<ge> 999 / 10)"
| "completes _ s = False"

fun completions :: "options \<Rightarrow> command list \<Rightarrow> session \<Rightarrow> nat" where
  "completions opts [] s = 0"
| "completions opts (c # cs) s =
     (if completes c s then 1 else 0) + completions opts cs (exec opts c s)"

subsection \<open>Example sessions\<close>

text \<open>Concrete options, environments and sessions, on which the properties are run.\<close>

definition all_callbacks :: options where
  "all_callbacks = \<lparr>onPlaybackEnd = True, onError = True\<rparr>"

definition decodes_to :: "real \<Rightarrow> load_env" where
  "decodes_to d = \<lparr>close_rejects = None, starts_suspended = False, read_rejects = None,
     decode_result = Inr \<lparr>buf_duration = d\<rparr>\<rparr>"

definition decode_fails :: load_env where
  "decode_fails = \<lparr>close_rejects = None, starts_suspended = False, read_rejects = None,
     decode_result = Inl ''EncodingError''\<rparr>"

definition song :: js_file where
  "song = \<lparr>file_name = ''song.mp3''\<rparr>"

definition other :: js_file where
  "other = \<lparr>file_name = ''other.mp3''\<rparr>"

text \<open>A fresh session after loading a 120-second asset.\<close>

definition loaded_120 :: session where
  "loaded_120 = loadFile all_callbacks (decodes_to 120) song initial"

text \<open>A fresh session with speed 1.5 and pitch +3 set before anything is loaded.\<close>

definition tuned :: session where
  "tuned = setPitch 3 (setSpeed (3 / 2) initial)"

text \<open>
  A run in which the asset is loaded and played to its end; the second end event
  arrives once the session has stopped.
\<close>

definition play_through :: "command list" where
  "play_through =
     [LoadFile (decodes_to 120) song, Play,
      PlayEvent \<lparr>ev_timePlayed = 60, ev_percentagePlayed = 50\<rparr>,
      PlayEvent \<lparr>ev_timePlayed = 1199 / 10, ev_percentagePlayed = 9995 / 100\<rparr>,
      PlayEvent \<lparr>ev_timePlayed = 120, ev_percentagePlayed = 100\<rparr>]"

text \<open>The speed slider is moved to 2 while the decode is pending.\<close>

definition slider_moved :: interleaving where
  "slider_moved = \<lparr>during_close = [], during_read = [], during_decode = [SetSpeed 2]\<rparr>"

text \<open>
  While a second load awaits the close of the first context, the session is played;
  the speed is set during the read.
\<close>

definition busy :: interleaving where
  "busy = \<lparr>during_close = [Play], during_read = [SetSpeed 2], during_decode = [SetPitch 5]\<rparr>"

definition end_event :: play_event where
  "end_event = \<lparr>ev_timePlayed = 1199 / 10, ev_percentagePlayed = 9995 / 100\<rparr>"

text \<open>
  Two overlapping calls of \<^verbatim>\<open>loadFile\<close> on a fresh session: the first (\<open>song\<close>) is
  pending its decode when the second (\<open>other\<close>) starts; the decode of the second
  completes first, the decode of the first afterwards.
\<close>

definition second_load_done :: session where
  "second_load_done =
     loadFile_decoded all_callbacks (speed initial) (pitch initial) other \<lparr>buf_duration = 30\<rparr>
       (snd (loadFile_begin (decodes_to 30) (snd (loadFile_begin (decodes_to 120) initial))))"

definition first_load_done_late :: session where
  "first_load_done_late =
     loadFile_decoded all_callbacks (speed initial) (pitch initial) song \<lparr>buf_duration = 120\<rparr>
       second_load_done"

section \<open>Properties\<close>

lemmas example_defs = all_callbacks_def decodes_to_def decode_fails_def song_def other_def
  loaded_120_def end_event_def second_load_done_def first_load_done_late_def tuned_def
  play_through_def slider_moved_def busy_def uninterrupted_def

lemmas session_defs =
  loadFile_def loadFile_begin_def loadFile_new_context_def loadFile_decoded_def
  loadFile_catch_def call_onError_def
  call_onPlaybackEnd_def initial_def stop_def play_def pause_def seek_def connect_def
  disconnect_def suspend_def resume_def rendering_def on_play_def setSpeed_def setPitch_def

subsection \<open>\<open>formatTime\<close>\<close>

lemma length_digits_small: "n < 10 \<Longrightarrow> length (digits n) = 1"
  by (simp add: digits.simps)

lemma length_digits_large: "10 \<le> n \<Longrightarrow> 2 \<le> length (digits n)"
proof -
  assume "10 \<le> n"
  then have "digits n = digits (n div 10) @ [''0123456789'' ! (n mod 10)]"
    by (subst digits.simps) simp
  moreover have "1 \<le> length (digits (n div 10))"
    by (subst digits.simps) simp
  ultimately show ?thesis by simp
qed

lemma padStart_two_digits: "padStart 2 (CHR ''0'') (digits n) = two_digits n"
proof (cases "n < 10")
  case True
  then show ?thesis
    by (simp add: padStart_def two_digits_def length_digits_small numeral_2_eq_2)
next
  case False
  then have "2 \<le> length (digits n)" by (simp add: length_digits_large)
  with False show ?thesis by (simp add: padStart_def two_digits_def)
qed

lemma js_rem_60_nonneg:
  assumes "0 \<le> s"
  shows "\<lfloor>js_rem s 60\<rfloor> = \<lfloor>s\<rfloor> mod 60"
proof -
  have q: "\<lfloor>s / 60\<rfloor> = \<lfloor>s\<rfloor> div 60"
    using floor_divide_real_eq_div [of 60 s] by simp
  from assms have "js_rem s 60 = s - of_int (60 * \<lfloor>s / 60\<rfloor>)"
    by (simp add: js_rem_def js_trunc_def)
  then have "\<lfloor>js_rem s 60\<rfloor> = \<lfloor>s\<rfloor> - 60 * \<lfloor>s / 60\<rfloor>"
    by (simp only: floor_diff_of_int)
  with q show ?thesis
    by (simp add: minus_mult_div_eq_mod)
qed

lemma formatTime_nonneg:
  assumes "0 \<le> s"
  shows "formatTime s = formatTime_spec s"
proof -
  from assms have "\<not> \<lfloor>s / 60\<rfloor> < 0" by (simp add: not_less)
  then have mins: "number_toString \<lfloor>s / 60\<rfloor> = digits (nat \<lfloor>s / 60\<rfloor>)"
    unfolding number_toString_def by (rule if_not_P)
  have "\<not> \<lfloor>s\<rfloor> mod 60 < 0" by (simp add: not_less)
  then have "number_toString (\<lfloor>s\<rfloor> mod 60) = digits (nat (\<lfloor>s\<rfloor> mod 60))"
    unfolding number_toString_def by (rule if_not_P)
  then have secs: "padStart 2 (CHR ''0'') (number_toString \<lfloor>js_rem s 60\<rfloor>)
                   = two_digits (nat (\<lfloor>s\<rfloor> mod 60))"
    by (simp only: js_rem_60_nonneg [OF assms] padStart_two_digits)
  show ?thesis
    unfolding formatTime_def formatTime_spec_def Let_def
    by (simp only: mins secs)
qed

lemma formatTime_65: "formatTime 65 = ''1:05''"
  by (simp add: formatTime_nonneg formatTime_spec_def two_digits_def digits.simps)

lemma formatTime_5: "formatTime 5 = ''0:05''"
  by (simp add: formatTime_nonneg formatTime_spec_def two_digits_def digits.simps)

lemma formatTime_600: "formatTime 600 = ''10:00''"
  by (simp add: formatTime_nonneg formatTime_spec_def two_digits_def digits.simps)

text \<open>
  C9: for every non-negative number of seconds \<open>s\<close>, \<open>formatTime s\<close> is the decimal
  \<open>floor(s / 60)\<close> with no leading zero, a colon, and \<open>floor(s) mod 60\<close> padded with
  zeros to two digits; \<open>formatTime 65\<close> is \<open>1:05\<close>, \<open>formatTime 5\<close> is \<open>0:05\<close> and
  \<open>formatTime 600\<close> is \<open>10:00\<close>.
\<close>

theorem formatTime_format:
  assumes "0 \<le> s"
  shows "formatTime s = formatTime_spec s
     \<and> formatTime 65 = ''1:05'' \<and> formatTime 5 = ''0:05'' \<and> formatTime 600 = ''10:00''"
  using assms by (simp add: formatTime_nonneg formatTime_65 formatTime_5 formatTime_600)

theorem formatTime_format_witness:
  "(0::real) \<le> 725 / 10 \<and> formatTime (725 / 10) = ''1:12''"
  using formatTime_format [of "725 / 10"]
  by (simp add: formatTime_spec_def two_digits_def digits.simps)

subsection \<open>Seeking\<close>

text \<open>
  C1, as stated, fails: \<open>seek\<close> stores the requested time as it is. On the 120-second
  asset, \<open>seek (-5)\<close> leaves the position at \<open>-5\<close> and \<open>seek 500\<close> leaves it at \<open>500\<close>.
\<close>

theorem seek_not_clamped:
  "duration loaded_120 = 120
   \<and> currentTime (seek all_callbacks None (- 5) loaded_120) = - 5
   \<and> currentTime (seek all_callbacks None 500 loaded_120) = 500"
  by (simp add: example_defs session_defs)

text \<open>
  C1, amended: \<open>seek t\<close> sets the observable position to \<open>t\<close> itself, without clamping,
  and leaves the duration as it is; so the position after the seek lies in
  \<open>[0, duration]\<close> exactly when \<open>t\<close> does.
\<close>

theorem seek_position:
  "currentTime (seek opts thrown t s) = t
   \<and> duration (seek opts thrown t s) = duration s
   \<and> ((0 \<le> currentTime (seek opts thrown t s)
        \<and> currentTime (seek opts thrown t s) \<le> duration (seek opts thrown t s))
       = (0 \<le> t \<and> t \<le> duration s))"
  by (simp add: seek_def call_onError_def Let_def split: option.splits)

text \<open>With a node and a positive duration, the seek moves the node's cursor to \<open>t / duration\<close>.\<close>

lemma seek_cursor:
  "pitchShifterRef s = Some n \<Longrightarrow> 0 < duration s \<Longrightarrow>
   map_option percentagePlayed (pitchShifterRef (seek opts None t s)) = Some (t / duration s)"
  by (simp add: seek_def Let_def)

subsection \<open>Speed and pitch\<close>

text \<open>
  C6: speed and pitch are independent axes. \<open>setSpeed\<close> leaves the stored pitch and the
  node's \<open>pitchSemitones\<close> unchanged, and \<open>setPitch\<close> leaves the stored speed and the
  node's \<open>tempo\<close> unchanged; this holds for every value, in particular for speeds in
  \<open>[0.5, 2.0]\<close> and pitches in \<open>[-12, 12]\<close>.
\<close>

theorem speed_pitch_independent:
  "pitch (setSpeed v s) = pitch s
   \<and> map_option pitchSemitones (pitchShifterRef (setSpeed v s))
       = map_option pitchSemitones (pitchShifterRef s)
   \<and> speed (setPitch p s) = speed s
   \<and> map_option tempo (pitchShifterRef (setPitch p s))
       = map_option tempo (pitchShifterRef s)"
  by (simp add: setSpeed_def setPitch_def split: option.splits)

subsection \<open>Loading\<close>


text \<open>A load whose decode fails, written out in the same way.\<close>

lemma loadFile_decode_failure:
  assumes "close_rejects env = None" "read_rejects env = None" "decode_result env = Inl e"
  shows "loadFile opts env f s =
     s\<lparr>audioContext := Some \<lparr>ctx_id = contexts_created s,
          ctx_state = (if starts_suspended env then Suspended else Running)\<rparr>,
       pitchShifterRef :=
         (if isPlaying s
          then map_option (\<lambda>n. n\<lparr>outputs := {}, percentagePlayed := 0\<rparr>) (pitchShifterRef s)
          else pitchShifterRef s),
       isPlaying := False,
       currentTime := (if isPlaying s then 0 else currentTime s),
       isLoading := False, contexts_created := Suc (contexts_created s),
       calls := (if onError opts then calls s @ [Error e] else calls s)\<rparr>"
  using assms
  by (cases "isPlaying s"; cases "pitchShifterRef s") (simp_all add: session_defs Let_def)
















text \<open>
  The completion of a decode on a session that holds a context, as one update: the node
  is built on that context with the captured speed and pitch, and connected to its
  destination.
\<close>

lemma loadFile_decoded_update:
  assumes "audioContext s = Some c"
  shows "loadFile_decoded opts speed0 pitch0 f buf s =
     s\<lparr>audioBuffer := Some buf,
       pitchShifterRef := Some \<lparr>ps_context = ctx_id c, ps_buffer = buf, tempo = speed0,
          pitchSemitones = pitch0, percentagePlayed = 0, outputs = {ctx_id c}\<rparr>,
       duration := buf_duration buf, currentTime := 0,
       audioFileName := Some (file_name f), isLoading := False\<rparr>"
  using assms by (simp add: loadFile_decoded_def connect_def Let_def)


lemma loadFile_interleaved_failure:
  assumes "close_rejects env = None" "read_rejects env = None" "decode_result env = Inl e"
  shows "\<exists>s5. loadFile_interleaved opts env il f s = loadFile_catch opts e s5"
proof -
  define s2 where "s2 = (if isPlaying s then stop (s\<lparr>isLoading := True\<rparr>) else s\<lparr>isLoading := True\<rparr>)"
  define s3 where "s3 = (if audioContext s2 \<noteq> None then run opts (during_close il) s2 else s2)"
  define s5 where "s5 = run opts (during_decode il)
      (run opts (during_read il) (loadFile_new_context env s3))"
  have "loadFile_interleaved opts env il f s = loadFile_catch opts e s5"
    using assms by (simp add: loadFile_interleaved_def Let_def s2_def s3_def s5_def)
  then show ?thesis ..
qed







text \<open>
  C3, as stated, fails: when a decode fails on a session that holds the 120-second
  asset, the node, the buffer, the file name and the duration of that asset are all
  still there afterwards.
\<close>

theorem failed_load_keeps_previous:
  "pitchShifterRef (loadFile all_callbacks decode_fails other loaded_120)
     = Some \<lparr>ps_context = 0, ps_buffer = \<lparr>buf_duration = 120\<rparr>, tempo = 1, pitchSemitones = 0,
             percentagePlayed = 0, outputs = {0}\<rparr>
   \<and> audioBuffer (loadFile all_callbacks decode_fails other loaded_120)
        = Some \<lparr>buf_duration = 120\<rparr>
   \<and> audioFileName (loadFile all_callbacks decode_fails other loaded_120) = Some ''song.mp3''
   \<and> duration (loadFile all_callbacks decode_fails other loaded_120) = 120"
  by (simp add: example_defs session_defs)

text \<open>
  C3, amended: when the decode of a \<open>loadFile\<close> call fails, the handler of the failure
  calls \<open>onError\<close>, when it is given, with the error the decode rejected with, sets
  \<open>isLoading\<close> to false, and changes nothing else, whatever the session holds; so under
  every interleaving the call ends not loading, with that invocation last in the log.
  The failed call installs nothing and clears nothing: with nothing running during its
  awaits it leaves the session not loading and not playing, \<open>onError\<close> called once more,
  with the buffer, the file name, the duration and the node that the session held
  before the call (the node disconnected and rewound if the session was playing), and
  with a new context in place of the previous one. A session that held no asset is idle
  afterwards, with no buffer and no node; a session that held an asset still holds it.
\<close>

theorem failed_load_frame:
  assumes "close_rejects env = None" "read_rejects env = None" "decode_result env = Inl e"
  shows "loadFile_catch opts e s0
           = s0\<lparr>calls := (if onError opts then calls s0 @ [Error e] else calls s0),
                isLoading := False\<rparr>
     \<and> \<not> isLoading (loadFile_interleaved opts env il f s)
     \<and> (onError opts \<longrightarrow> calls (loadFile_interleaved opts env il f s) \<noteq> []
           \<and> last (calls (loadFile_interleaved opts env il f s)) = Error e)
     \<and> \<not> isLoading (loadFile opts env f s)
     \<and> \<not> isPlaying (loadFile opts env f s)
     \<and> calls (loadFile opts env f s) = (if onError opts then calls s @ [Error e] else calls s)
     \<and> audioBuffer (loadFile opts env f s) = audioBuffer s
     \<and> audioFileName (loadFile opts env f s) = audioFileName s
     \<and> duration (loadFile opts env f s) = duration s
     \<and> pitchShifterRef (loadFile opts env f s)
         = (if isPlaying s
            then map_option (\<lambda>n. n\<lparr>outputs := {}, percentagePlayed := 0\<rparr>) (pitchShifterRef s)
            else pitchShifterRef s)
     \<and> audioContext (loadFile opts env f s)
         = Some \<lparr>ctx_id = contexts_created s,
                 ctx_state = (if starts_suspended env then Suspended else Running)\<rparr>"
proof -
  have handler: "loadFile_catch opts e s0
      = s0\<lparr>calls := (if onError opts then calls s0 @ [Error e] else calls s0),
           isLoading := False\<rparr>"
    by (simp add: loadFile_catch_def call_onError_def)
  obtain s5 where eq: "loadFile_interleaved opts env il f s = loadFile_catch opts e s5"
    using loadFile_interleaved_failure [OF assms] by blast
  have general: "\<not> isLoading (loadFile_interleaved opts env il f s)
     \<and> (onError opts \<longrightarrow> calls (loadFile_interleaved opts env il f s) \<noteq> []
           \<and> last (calls (loadFile_interleaved opts env il f s)) = Error e)"
    unfolding eq by (simp add: loadFile_catch_def call_onError_def)
  have alone: "\<not> isLoading (loadFile opts env f s)
     \<and> \<not> isPlaying (loadFile opts env f s)
     \<and> calls (loadFile opts env f s) = (if onError opts then calls s @ [Error e] else calls s)
     \<and> audioBuffer (loadFile opts env f s) = audioBuffer s
     \<and> audioFileName (loadFile opts env f s) = audioFileName s
     \<and> duration (loadFile opts env f s) = duration s
     \<and> pitchShifterRef (loadFile opts env f s)
         = (if isPlaying s
            then map_option (\<lambda>n. n\<lparr>outputs := {}, percentagePlayed := 0\<rparr>) (pitchShifterRef s)
            else pitchShifterRef s)
     \<and> audioContext (loadFile opts env f s)
         = Some \<lparr>ctx_id = contexts_created s,
                 ctx_state = (if starts_suspended env then Suspended else Running)\<rparr>"
    by (simp add: loadFile_decode_failure [OF assms])
  from handler general alone show ?thesis by simp
qed

theorem failed_load_frame_witness:
  "close_rejects decode_fails = None \<and> read_rejects decode_fails = None
   \<and> decode_result decode_fails = Inl ''EncodingError''
   \<and> onError all_callbacks
   \<and> pitchShifterRef (loadFile all_callbacks decode_fails other initial) = None
   \<and> audioBuffer (loadFile all_callbacks decode_fails other initial) = None
   \<and> audioFileName (loadFile all_callbacks decode_fails other initial) = None
   \<and> calls (loadFile all_callbacks decode_fails other initial) = [Error ''EncodingError'']
   \<and> isPlaying (snd (play loaded_120))
   \<and> \<not> isPlaying (loadFile all_callbacks decode_fails other (snd (play loaded_120)))
   \<and> pitchShifterRef (loadFile all_callbacks decode_fails other (snd (play loaded_120)))
       = Some \<lparr>ps_context = 0, ps_buffer = \<lparr>buf_duration = 120\<rparr>, tempo = 1, pitchSemitones = 0,
               percentagePlayed = 0, outputs = {}\<rparr>
   \<and> audioFileName (loadFile all_callbacks decode_fails other (snd (play loaded_120)))
       = Some ''song.mp3''
   \<and> audioContext (loadFile all_callbacks decode_fails other (snd (play loaded_120)))
       = Some \<lparr>ctx_id = 1, ctx_state = Running\<rparr>
   \<and> last (calls (loadFile_interleaved all_callbacks decode_fails busy other loaded_120))
       = Error ''EncodingError''"
proof -
  have p: "snd (play loaded_120)
      = \<lparr>audioContext = Some \<lparr>ctx_id = 0, ctx_state = Running\<rparr>,
         audioBuffer = Some \<lparr>buf_duration = 120\<rparr>,
         pitchShifterRef = Some \<lparr>ps_context = 0, ps_buffer = \<lparr>buf_duration = 120\<rparr>, tempo = 1,
           pitchSemitones = 0, percentagePlayed = 0, outputs = {0}\<rparr>,
         speed = 1, pitch = 0, audioFileName = Some ''song.mp3'', isPlaying = True,
         currentTime = 0, duration = 120, isLoading = False, contexts_created = 1, calls = []\<rparr>"
    by (simp add: example_defs session_defs)
  show ?thesis
    using failed_load_frame [of decode_fails "''EncodingError''" all_callbacks initial busy other initial]
      failed_load_frame [of decode_fails "''EncodingError''" all_callbacks initial busy other
        "snd (play loaded_120)"]
      failed_load_frame [of decode_fails "''EncodingError''" all_callbacks initial busy other
        loaded_120]
    by (simp add: p decode_fails_def initial_def all_callbacks_def)
qed

text \<open>
  C8, as stated, fails: with two overlapping loads, the second load's decode completes
  and establishes \<open>other.mp3\<close> with a duration of 30; the late completion of the first
  load's decode then replaces it with \<open>song.mp3\<close>, a duration of 120 and a node on the
  first buffer.
\<close>

theorem stale_decode_overwrites:
  "audioFileName second_load_done = Some ''other.mp3''
   \<and> duration second_load_done = 30
   \<and> audioFileName first_load_done_late = Some ''song.mp3''
   \<and> duration first_load_done_late = 120
   \<and> map_option ps_buffer (pitchShifterRef first_load_done_late) = Some \<lparr>buf_duration = 120\<rparr>"
  by (simp add: example_defs session_defs)

text \<open>
  C8, amended: the completion of a decode installs the asset of its own load whatever
  the session holds at that moment, with no check that the load is still the current
  one: afterwards the file name, the duration, the buffer and the node's buffer are
  those of the completed decode and the position is 0. So of two overlapping loads, the
  one whose decode completes last determines the session.
\<close>

theorem decode_completion_installs:
  assumes "audioContext s = Some c"
  shows "audioFileName (loadFile_decoded opts speed0 pitch0 f buf s) = Some (file_name f)
     \<and> duration (loadFile_decoded opts speed0 pitch0 f buf s) = buf_duration buf
     \<and> audioBuffer (loadFile_decoded opts speed0 pitch0 f buf s) = Some buf
     \<and> map_option ps_buffer (pitchShifterRef (loadFile_decoded opts speed0 pitch0 f buf s))
         = Some buf
     \<and> currentTime (loadFile_decoded opts speed0 pitch0 f buf s) = 0"
  by (simp add: loadFile_decoded_update [OF assms])

theorem decode_completion_installs_witness:
  "audioContext second_load_done = Some \<lparr>ctx_id = 1, ctx_state = Running\<rparr>
   \<and> audioFileName (loadFile_decoded all_callbacks 1 0 song \<lparr>buf_duration = 120\<rparr> second_load_done)
       = Some ''song.mp3''"
  using decode_completion_installs [of second_load_done "\<lparr>ctx_id = 1, ctx_state = Running\<rparr>"
      all_callbacks 1 0 song "\<lparr>buf_duration = 120\<rparr>"]
  by (simp add: example_defs session_defs)

subsection \<open>The end of the asset\<close>

lemma ends_loadFile: "playback_ends (calls (loadFile opts env f s)) = playback_ends (calls s)"
  by (simp add: session_defs playback_ends_def Let_def
      split: option.splits sum.splits prod.splits if_splits)

lemma ends_seek: "playback_ends (calls (seek opts thrown t s)) = playback_ends (calls s)"
  by (simp add: seek_def call_onError_def playback_ends_def Let_def split: option.splits)

lemma ends_on_play:
  "onPlaybackEnd opts \<Longrightarrow>
   playback_ends (calls (on_play opts ev s))
     = playback_ends (calls s) + (if ev_percentagePlayed ev \<ge> 999 / 10 then 1 else 0)"
  by (simp add: on_play_def call_onPlaybackEnd_def stop_def playback_ends_def Let_def)

lemma calls_play: "calls (snd (play s)) = calls s"
  by (simp add: play_def connect_def Let_def split: option.splits)

lemma ends_exec:
  "onPlaybackEnd opts \<Longrightarrow>
   playback_ends (calls (exec opts c s))
     = playback_ends (calls s) + (if completes c s then 1 else 0)"
  by (cases c)
    (simp_all add: ends_loadFile ends_seek ends_on_play calls_play pause_def stop_def
      setSpeed_def setPitch_def split: option.splits)

lemma ends_run:
  "onPlaybackEnd opts \<Longrightarrow>
   playback_ends (calls (run opts cs s)) = playback_ends (calls s) + completions opts cs s"
  by (induction cs arbitrary: s) (simp_all add: ends_exec)

lemma on_play_at_end:
  assumes "onPlaybackEnd opts" "ev_percentagePlayed ev \<ge> 999 / 10"
  shows "on_play opts ev s
     = (stop (s\<lparr>currentTime := ev_timePlayed ev\<rparr>))\<lparr>calls := calls s @ [PlaybackEnd]\<rparr>"
  using assms by (simp add: on_play_def call_onPlaybackEnd_def Let_def stop_def)

lemma stopped_not_rendering: "\<not> rendering ((stop s)\<lparr>calls := l\<rparr>)"
  by (simp add: rendering_def stop_def disconnect_def split: option.splits)

text \<open>
  C2: when a position event with \<open>percentagePlayed \<ge> 99.9\<close> arrives and an
  \<open>onPlaybackEnd\<close> callback is given, the session leaves Playing by \<open>stop\<close> (not playing,
  position 0, node disconnected and rewound) and the callback is invoked exactly once:
  the log grows by one invocation; the stopped node no longer renders, so a further
  position event is not delivered; and over any run the number of invocations is the
  number of completed play-throughs.
\<close>

theorem playback_end_once:
  assumes "onPlaybackEnd opts" "ev_percentagePlayed ev \<ge> 999 / 10"
  shows "\<not> isPlaying (on_play opts ev s)
     \<and> currentTime (on_play opts ev s) = 0
     \<and> map_option outputs (pitchShifterRef (on_play opts ev s))
         = map_option (\<lambda>n. {}) (pitchShifterRef s)
     \<and> map_option percentagePlayed (pitchShifterRef (on_play opts ev s))
         = map_option (\<lambda>n. 0) (pitchShifterRef s)
     \<and> calls (on_play opts ev s) = calls s @ [PlaybackEnd]
     \<and> \<not> rendering (on_play opts ev s)
     \<and> exec opts (PlayEvent ev') (on_play opts ev s) = on_play opts ev s
     \<and> playback_ends (calls (run opts cs s0)) = playback_ends (calls s0) + completions opts cs s0"
proof -
  note eq = on_play_at_end [OF assms, of s]
  have nr: "\<not> rendering (on_play opts ev s)"
    unfolding eq by (rule stopped_not_rendering)
  have run: "playback_ends (calls (run opts cs s0))
      = playback_ends (calls s0) + completions opts cs s0"
    using assms(1) by (rule ends_run)
  have step: "\<not> isPlaying (on_play opts ev s)
     \<and> currentTime (on_play opts ev s) = 0
     \<and> map_option outputs (pitchShifterRef (on_play opts ev s))
         = map_option (\<lambda>n. {}) (pitchShifterRef s)
     \<and> map_option percentagePlayed (pitchShifterRef (on_play opts ev s))
         = map_option (\<lambda>n. 0) (pitchShifterRef s)
     \<and> calls (on_play opts ev s) = calls s @ [PlaybackEnd]"
    by (simp add: eq stop_def disconnect_def split: option.splits)
  from nr have "exec opts (PlayEvent ev') (on_play opts ev s) = on_play opts ev s"
    by simp
  with step nr run show ?thesis by simp
qed

theorem playback_end_once_witness:
  "onPlaybackEnd all_callbacks \<and> ev_percentagePlayed end_event \<ge> 999 / 10
   \<and> rendering (snd (play loaded_120))
   \<and> \<not> isPlaying (on_play all_callbacks end_event (snd (play loaded_120)))
   \<and> calls (on_play all_callbacks end_event (snd (play loaded_120))) = [PlaybackEnd]
   \<and> completions all_callbacks play_through initial = 1
   \<and> playback_ends (calls (run all_callbacks play_through initial)) = 1"
proof -
  have c: "completions all_callbacks play_through initial = 1"
    by (simp add: example_defs session_defs)
  have r: "rendering (snd (play loaded_120))"
    by (simp add: example_defs session_defs)
  show ?thesis
    using c r
      playback_end_once [of all_callbacks end_event "snd (play loaded_120)" _ play_through initial]
    by (simp add: example_defs session_defs playback_ends_def)
qed

subsection \<open>Playing twice\<close>















text \<open>
  After a failed reload the session holds the node of the previous load, built on the
  context that the reload closed and replaced: \<open>play\<close> then throws at \<^verbatim>\<open>connect\<close> and
  the session is not playing.
\<close>

lemma play_after_failed_reload:
  "fst (play (loadFile all_callbacks decode_fails other loaded_120)) = Some ''InvalidAccessError''
   \<and> \<not> isPlaying (snd (play (loadFile all_callbacks decode_fails other loaded_120)))
   \<and> \<not> node_current (loadFile all_callbacks decode_fails other loaded_120)"
  by (simp add: example_defs session_defs node_current_def)



subsection \<open>Stopping\<close>





end
